theory Spec2Isabelle
  imports Main
begin

section \<open>Python values, exceptions and outcomes\<close>

text \<open>
  The job store of \<^verbatim>\<open>utils/jobdatabase/engine.py\<close> keeps every accepted job in one
  JSON document, \<^verbatim>\<open>Job.json\<close>. A job is a Python \<^verbatim>\<open>Dict[str, Any]\<close> that came out of a
  JSON request body and goes back into a JSON file, so its values are JSON values.
  A dictionary is an association list in insertion order, as a Python \<^verbatim>\<open>dict\<close> is.
  Floating point numbers are left out.
\<close>

datatype pyval =
    PNone
  | PBool bool
  | PInt int
  | PStr string
  | PList "pyval list"
  | PDict "(string \<times> pyval) list"

type_synonym pydict = "(string \<times> pyval) list"

text \<open>The exceptions the modelled statements can raise.\<close>

datatype py_exception =
    OSError
  | KeyError
  | TypeError
  | IndexError
  | AttributeError
  | ValueError string
  | JSONDecodeError
  | ValidationError string

text \<open>A call either returns a value or ends in an exception that reaches the caller.\<close>

datatype 'a outcome = Returns 'a | Raises py_exception

text \<open>\<^verbatim>\<open>d[key] = value\<close>: an existing key keeps its place, a new key goes last.\<close>

fun dict_set :: "pydict \<Rightarrow> string \<Rightarrow> pyval \<Rightarrow> pydict" where
  "dict_set [] k v = [(k, v)]"
| "dict_set ((k', v') # d) k v = (if k' = k then (k, v) # d else (k', v') # dict_set d k v)"

text \<open>\<^verbatim>\<open>v[key]\<close> for a string key: only a dictionary can be indexed by a string.\<close>

fun py_getitem :: "pyval \<Rightarrow> string \<Rightarrow> py_exception + pyval" where
  "py_getitem (PDict d) k = (case map_of d k of None \<Rightarrow> Inl KeyError | Some v \<Rightarrow> Inr v)"
| "py_getitem v k = Inl TypeError"

text \<open>\<^verbatim>\<open>len(v)\<close>.\<close>

fun py_len :: "pyval \<Rightarrow> py_exception + nat" where
  "py_len (PList xs) = Inr (length xs)"
| "py_len (PDict d) = Inr (length d)"
| "py_len (PStr s) = Inr (length s)"
| "py_len v = Inl TypeError"

text \<open>
  \<^verbatim>\<open>v[-1]\<close>: the last element of a list or the last character of a string;
  a dictionary loaded from JSON has string keys only, so \<^verbatim>\<open>-1\<close> is a missing key.
\<close>

fun py_last :: "pyval \<Rightarrow> py_exception + pyval" where
  "py_last (PList xs) = (if xs = [] then Inl IndexError else Inr (last xs))"
| "py_last (PStr s) = (if s = [] then Inl IndexError else Inr (PStr [last s]))"
| "py_last (PDict d) = Inl KeyError"
| "py_last v = Inl TypeError"

text \<open>\<^verbatim>\<open>v + 1\<close>; a Python \<^verbatim>\<open>bool\<close> is an \<^verbatim>\<open>int\<close>.\<close>

fun py_add1 :: "pyval \<Rightarrow> py_exception + int" where
  "py_add1 (PInt n) = Inr (n + 1)"
| "py_add1 (PBool b) = Inr ((if b then 1 else 0) + 1)"
| "py_add1 v = Inl TypeError"

text \<open>
  \<^verbatim>\<open>storage[idx]\<close> with an integer \<^verbatim>\<open>idx\<close>: positions \<^verbatim>\<open>0 .. len - 1\<close> from the
  front, \<^verbatim>\<open>-1 .. -len\<close> from the back, \<^verbatim>\<open>IndexError\<close> outside both ranges.
\<close>

fun py_index :: "pyval \<Rightarrow> int \<Rightarrow> py_exception + pyval" where
  "py_index (PList xs) idx =
     (if 0 \<le> idx \<and> idx < int (length xs) then Inr (xs ! nat idx)
      else if idx < 0 \<and> - int (length xs) \<le> idx then Inr (xs ! nat (int (length xs) + idx))
      else Inl IndexError)"
| "py_index v idx = Inl TypeError"

text \<open>Truth value of an \<^verbatim>\<open>Optional[Exception]\<close>: \<^verbatim>\<open>None\<close> is false, an exception object is true.\<close>

fun truthy :: "py_exception option \<Rightarrow> bool" where
  "truthy None = False"
| "truthy (Some e) = True"

section \<open>The durable document and the lock\<close>

text \<open>
  What an operation does to the outside world is recorded in order: taking and
  releasing a \<^verbatim>\<open>threading.Lock\<close> (named by its identity) and opening \<^verbatim>\<open>Job.json\<close>
  for reading or writing.
\<close>

datatype event = Acquire nat | Release nat | FileRead | FileWrite

text \<open>
  The state of \<^verbatim>\<open>Job.json\<close> as a reader finds it: it cannot be opened, or it opens
  but is not JSON, or \<^verbatim>\<open>json.load\<close> yields a value from it.
\<close>

datatype document = Unreadable | Unparsable | Parsed pyval

text \<open>
  \<^verbatim>\<open>content\<close> is the state of the document; \<^verbatim>\<open>writable\<close> says whether the file can be
  opened for writing.
\<close>

record world =
  content :: document
  writable :: bool
  trace :: "event list"

definition emit :: "event \<Rightarrow> world \<Rightarrow> world" where
  "emit ev w = w\<lparr>trace := trace w @ [ev]\<rparr>"

text \<open>
  Modelled from the spec: \<^verbatim>\<open>utils.jobdatabase.io.JobDatabaseRead\<close> is not among the
  sources. The spec's durable document is a single file holding the whole collection;
  \<^verbatim>\<open>with JobDatabaseRead() as r: json.load(r)\<close> opens it and parses it. A file that
  cannot be opened is an \<^verbatim>\<open>OSError\<close>; on a file that is not JSON \<^verbatim>\<open>json.load\<close> raises
  \<^verbatim>\<open>JSONDecodeError\<close>.
\<close>

definition JobDatabaseRead :: "world \<Rightarrow> pyval outcome \<times> world" where
  "JobDatabaseRead w =
     (case content w of
        Unreadable \<Rightarrow> (Raises OSError, emit FileRead w)
      | Unparsable \<Rightarrow> (Raises JSONDecodeError, emit FileRead w)
      | Parsed v \<Rightarrow> (Returns v, emit FileRead w))"

text \<open>
  Modelled from the spec: \<^verbatim>\<open>utils.jobdatabase.io.JobDatabaseWrite\<close> is not among the
  sources. \<^verbatim>\<open>with JobDatabaseWrite() as w: json.dump(v, w, indent=4)\<close> rewrites the
  entire document with \<^verbatim>\<open>v\<close>; when the file cannot be opened the document stays as it
  was and the error is an exception.
\<close>

definition JobDatabaseWrite :: "pyval \<Rightarrow> world \<Rightarrow> unit outcome \<times> world" where
  "JobDatabaseWrite v w =
     (if writable w then (Returns (), emit FileWrite (w\<lparr>content := Parsed v\<rparr>))
      else (Raises OSError, emit FileWrite w))"

text \<open>
  Modelled from the spec: \<^verbatim>\<open>libs.resource_access.lock_while_using_file\<close> is not among
  the sources. The spec has the exclusive lock acquired for the whole critical section
  and released unconditionally on all exit paths, error paths included; the
  \<^verbatim>\<open>try\<close>/\<^verbatim>\<open>except\<close> around \<^verbatim>\<open>__get_item()\<close> in the source shows that an exception of
  the wrapped function passes through the decorator. Callers run one after the other
  here, so the lock is free when an operation starts.
\<close>

definition lock_while_using_file :: "nat \<Rightarrow> (world \<Rightarrow> 'a \<times> world) \<Rightarrow> world \<Rightarrow> 'a \<times> world" where
  "lock_while_using_file m f w =
     (case f (emit (Acquire m) w) of (r, w') \<Rightarrow> (r, emit (Release m) w'))"

section \<open>The engine\<close>

text \<open>
  The two attributes \<^verbatim>\<open>__init__\<close> binds: the lock, by identity, and the validator
  chain, a callable from a job to \<^verbatim>\<open>(is_valid, err)\<close>. The chain's code
  (\<^verbatim>\<open>utils.validator_chains\<close>, \<^verbatim>\<open>libs.validator\<close>) is not among the sources, so the
  engine's operations are stated for an arbitrary chain.
\<close>

type_synonym validator_chain = "pydict \<Rightarrow> bool \<times> py_exception option"

record engine =
  mutex :: nat
  validator :: validator_chain

subsection \<open>save\<close>

text \<open>
  Lines 68-69: \<^verbatim>\<open>1 if len(storage['jobs']) == 0 else storage['jobs'][-1]['job_id'] + 1\<close>.
\<close>

definition new_job_id_of :: "pyval \<Rightarrow> py_exception + int" where
  "new_job_id_of storage =
     (case py_getitem storage ''jobs'' of
        Inl e \<Rightarrow> Inl e
      | Inr jobs \<Rightarrow>
          (case py_len jobs of
             Inl e \<Rightarrow> Inl e
           | Inr n \<Rightarrow>
               if n = 0 then Inr 1
               else (case py_last jobs of
                       Inl e \<Rightarrow> Inl e
                     | Inr last_job \<Rightarrow>
                         (case py_getitem last_job ''job_id'' of
                            Inl e \<Rightarrow> Inl e
                          | Inr v \<Rightarrow> py_add1 v))))"

text \<open>Line 72: \<^verbatim>\<open>storage['jobs'].append(job)\<close>; only a list has \<^verbatim>\<open>append\<close>.\<close>

definition append_job :: "pyval \<Rightarrow> pydict \<Rightarrow> py_exception + pyval" where
  "append_job storage job =
     (case storage of
        PDict d \<Rightarrow>
          (case map_of d ''jobs'' of
             None \<Rightarrow> Inl KeyError
           | Some (PList xs) \<Rightarrow> Inr (PDict (dict_set d ''jobs'' (PList (xs @ [PDict job]))))
           | Some v \<Rightarrow> Inl AttributeError)
      | v \<Rightarrow> Inl TypeError)"

text \<open>
  The closure \<^verbatim>\<open>__save\<close> (lines 58-77). The caller's job is a mutable dictionary:
  the value the caller holds after the call is returned next to the outcome, in
  the exceptional exits too.
\<close>

definition save_body :: "pydict \<Rightarrow> world \<Rightarrow> (int outcome \<times> pydict) \<times> world" where
  "save_body job w =
     (case JobDatabaseRead w of
        (Raises e, w1) \<Rightarrow> ((Raises e, job), w1)
      | (Returns storage, w1) \<Rightarrow>
          (case new_job_id_of storage of
             Inl e \<Rightarrow> ((Raises e, job), w1)
           | Inr new_job_id \<Rightarrow>
               (let job' = dict_set job ''job_id'' (PInt new_job_id) in
                case append_job storage job' of
                  Inl e \<Rightarrow> ((Raises e, job'), w1)
                | Inr storage' \<Rightarrow>
                    (case JobDatabaseWrite storage' w1 of
                       (Raises e, w2) \<Rightarrow> ((Raises e, job'), w2)
                     | (Returns u, w2) \<Rightarrow> ((Returns new_job_id, job'), w2)))))"

text \<open>
  \<^verbatim>\<open>save\<close> (lines 51-83). The condition \<^verbatim>\<open>not is_valid or err\<close> is written with
  Python's short-circuit reading. There is no \<^verbatim>\<open>try\<close> around \<^verbatim>\<open>__save()\<close>: an
  exception of the critical section is the outcome of \<^verbatim>\<open>save\<close>.
\<close>

definition save ::
  "engine \<Rightarrow> pydict \<Rightarrow> world \<Rightarrow>
     ((int option \<times> bool \<times> py_exception option) outcome \<times> pydict) \<times> world" where
  "save self job w =
     (case validator self job of
        (is_valid, err) \<Rightarrow>
          if (if \<not> is_valid then True else truthy err)
          then ((Returns (None, False, err), job), w)
          else (case lock_while_using_file (mutex self) (save_body job) w of
                  ((Raises e, job'), w') \<Rightarrow> ((Raises e, job'), w')
                | ((Returns new_job_id, job'), w') \<Rightarrow>
                    ((Returns (Some new_job_id, True, None), job'), w')))"

subsection \<open>update, remove, reset\<close>

text \<open>
  \<^verbatim>\<open>update\<close> (lines 85-90) and \<^verbatim>\<open>remove\<close> (lines 123-128): the locked closure is
  \<^verbatim>\<open>pass\<close>, and its \<^verbatim>\<open>None\<close> is what the method returns.
\<close>

definition update :: "engine \<Rightarrow> int \<Rightarrow> pydict \<Rightarrow> world \<Rightarrow> unit outcome \<times> world" where
  "update self job_id updated_data w =
     lock_while_using_file (mutex self) (\<lambda>w1. (Returns (), w1)) w"

definition remove :: "engine \<Rightarrow> int \<Rightarrow> world \<Rightarrow> unit outcome \<times> world" where
  "remove self job_id w =
     lock_while_using_file (mutex self) (\<lambda>w1. (Returns (), w1)) w"

text \<open>
  \<^verbatim>\<open>reset\<close> (lines 43-49): \<^verbatim>\<open>json.dump({'jobs': []}, w, indent=4)\<close> inside
  \<^verbatim>\<open>with JobDatabaseWrite() as w\<close>, with no decorator and no \<^verbatim>\<open>try\<close>.
\<close>

definition reset :: "engine \<Rightarrow> world \<Rightarrow> unit outcome \<times> world" where
  "reset self w = JobDatabaseWrite (PDict [(''jobs'', PList [])]) w"

subsection \<open>get_item\<close>

text \<open>\<^verbatim>\<open>v == job_id\<close> for an integer \<^verbatim>\<open>job_id\<close>.\<close>

fun py_eq_int :: "pyval \<Rightarrow> int \<Rightarrow> bool" where
  "py_eq_int (PInt m) n = (m = n)"
| "py_eq_int (PBool b) n = ((if b then 1 else 0) = n)"
| "py_eq_int v n = False"

text \<open>
  Modelled from the spec: \<^verbatim>\<open>utils.jobdatabase.default_algorithm.search_job_by_job_id\<close>
  is not among the sources. The spec has \<^verbatim>\<open>get\<close> search the loaded collection
  linearly for a matching id; the source uses the result as \<^verbatim>\<open>(is_exists, idx)\<close>,
  the index of the match. The scan reads \<^verbatim>\<open>job['job_id']\<close> of each element in
  order and stops at the first match.
\<close>

fun search_from :: "nat \<Rightarrow> pyval list \<Rightarrow> int \<Rightarrow> py_exception + (bool \<times> int)" where
  "search_from i [] job_id = Inr (False, - 1)"
| "search_from i (job # rest) job_id =
     (case py_getitem job ''job_id'' of
        Inl e \<Rightarrow> Inl e
      | Inr v \<Rightarrow> if py_eq_int v job_id then Inr (True, int i)
                 else search_from (Suc i) rest job_id)"

fun search_job_by_job_id :: "pyval \<Rightarrow> int \<Rightarrow> py_exception + (bool \<times> int)" where
  "search_job_by_job_id (PList xs) job_id = search_from 0 xs job_id"
| "search_job_by_job_id v job_id = Inl TypeError"

text \<open>\<^verbatim>\<open>str(n)\<close> for an integer, as the f-string of line 121 formats \<^verbatim>\<open>job_id\<close>.\<close>

definition digit_char :: "nat \<Rightarrow> char" where
  "digit_char d = ''0123456789'' ! d"

fun digits_of :: "nat \<Rightarrow> string" where
  "digits_of n =
     (if n < 10 then [digit_char n]
      else digits_of (n div 10) @ [digit_char (n mod 10)])"

declare digits_of.simps [simp del]

definition py_str :: "int \<Rightarrow> string" where
  "py_str i = (if i < 0 then CHR ''-'' # digits_of (nat (- i)) else digits_of (nat i))"

text \<open>The closure \<^verbatim>\<open>__get_item\<close> (lines 100-112).\<close>

definition get_item_body :: "int \<Rightarrow> world \<Rightarrow> (bool \<times> pyval option) outcome \<times> world" where
  "get_item_body job_id w =
     (case JobDatabaseRead w of
        (Raises e, w1) \<Rightarrow> (Raises e, w1)
      | (Returns doc, w1) \<Rightarrow>
          (case py_getitem doc ''jobs'' of
             Inl e \<Rightarrow> (Raises e, w1)
           | Inr storage \<Rightarrow>
               (case search_job_by_job_id storage job_id of
                  Inl e \<Rightarrow> (Raises e, w1)
                | Inr (is_exists, idx) \<Rightarrow>
                    if \<not> is_exists then (Returns (False, None), w1)
                    else (case py_index storage idx of
                            Inl e \<Rightarrow> (Raises e, w1)
                          | Inr v \<Rightarrow> (Returns (True, Some v), w1)))))"

text \<open>
  \<^verbatim>\<open>get_item\<close> (lines 92-121): \<^verbatim>\<open>except Exception as e\<close> turns every exception of
  the critical section into \<^verbatim>\<open>(None, False, e)\<close>.
\<close>

definition get_item ::
  "engine \<Rightarrow> int \<Rightarrow> world \<Rightarrow> (pyval option \<times> bool \<times> py_exception option) outcome \<times> world" where
  "get_item self job_id w =
     (case lock_while_using_file (mutex self) (get_item_body job_id) w of
        (Raises e, w') \<Rightarrow> (Returns (None, False, Some e), w')
      | (Returns (success, res), w') \<Rightarrow>
          (if success then (Returns (res, True, None), w')
           else (Returns (None, False,
                   Some (ValueError (''Failed to find id: '' @ py_str job_id))), w')))"

subsection \<open>Construction\<close>

text \<open>
  \<^verbatim>\<open>__new__\<close> and \<^verbatim>\<open>__init__\<close> (lines 29-41) work on the class attribute
  \<^verbatim>\<open>jobdatabase_instance\<close> and on the attributes of the instance, so objects live in a
  store addressed by identity, and every \<^verbatim>\<open>Lock()\<close> is a new lock.
\<close>

record instance_attrs =
  attr_mutex :: "nat option"
  attr_validator :: "validator_chain option"

record runtime =
  jobdatabase_instance :: "nat option"
  heap :: "nat \<Rightarrow> instance_attrs option"
  next_addr :: nat
  locks_made :: nat

text \<open>\<^verbatim>\<open>__new__\<close>: the instance is created once and kept in the class attribute.\<close>

definition engine_new :: "runtime \<Rightarrow> nat \<times> runtime" where
  "engine_new rt =
     (case jobdatabase_instance rt of
        None \<Rightarrow>
          (let a = next_addr rt in
           (a, rt\<lparr>jobdatabase_instance := Some a,
                  heap := (heap rt)(a \<mapsto> \<lparr>attr_mutex = None, attr_validator = None\<rparr>),
                  next_addr := Suc a\<rparr>))
      | Some a \<Rightarrow> (a, rt))"

text \<open>
  \<^verbatim>\<open>__init__\<close>: \<^verbatim>\<open>self.mutex = Lock()\<close> and
  \<^verbatim>\<open>self.validator = get_job_validator_chain()\<close>; the chain that call returns is the
  parameter \<^verbatim>\<open>chain\<close>.
\<close>

definition engine_init :: "validator_chain \<Rightarrow> nat \<Rightarrow> runtime \<Rightarrow> runtime" where
  "engine_init chain self rt =
     (let m = locks_made rt in
      rt\<lparr>heap := (heap rt)(self \<mapsto> \<lparr>attr_mutex = Some m, attr_validator = Some chain\<rparr>),
         locks_made := Suc m\<rparr>)"

text \<open>
  The call \<^verbatim>\<open>JobDatabaseEngine()\<close>: Python calls \<^verbatim>\<open>__new__\<close> and then, the result
  being an instance of the class, \<^verbatim>\<open>__init__\<close> on it.
\<close>

definition JobDatabaseEngine :: "validator_chain \<Rightarrow> runtime \<Rightarrow> nat \<times> runtime" where
  "JobDatabaseEngine chain rt =
     (case engine_new rt of (a, rt1) \<Rightarrow> (a, engine_init chain a rt1))"

definition mutex_at :: "runtime \<Rightarrow> nat \<Rightarrow> nat option" where
  "mutex_at rt a = (case heap rt a of None \<Rightarrow> None | Some i \<Rightarrow> attr_mutex i)"

subsection \<open>Lock discipline on a trace\<close>

text \<open>
  \<^verbatim>\<open>guarded m held es\<close>: in the event sequence \<^verbatim>\<open>es\<close>, started with lock \<^verbatim>\<open>m\<close>
  held or not, every opening of the document happens while \<^verbatim>\<open>m\<close> is held.
\<close>

fun guarded :: "nat \<Rightarrow> bool \<Rightarrow> event list \<Rightarrow> bool" where
  "guarded m held [] = True"
| "guarded m held (Acquire k # es) = guarded m (if k = m then True else held) es"
| "guarded m held (Release k # es) = guarded m (if k = m then False else held) es"
| "guarded m held (FileRead # es) = (held \<and> guarded m held es)"
| "guarded m held (FileWrite # es) = (held \<and> guarded m held es)"

subsection \<open>Submitting jobs one after the other\<close>

text \<open>A caller that saves the jobs of a list in order and collects what each call gave.\<close>

fun save_each ::
  "engine \<Rightarrow> pydict list \<Rightarrow> world \<Rightarrow>
     (int option \<times> bool \<times> py_exception option) outcome list \<times> world" where
  "save_each self [] w = ([], w)"
| "save_each self (job # jobs) w =
     (case save self job w of
        ((r, job'), w') \<Rightarrow>
          (case save_each self jobs w' of (rs, w'') \<Rightarrow> (r # rs, w'')))"

text \<open>The collection a document holds, when it is a dictionary with a list under \<^verbatim>\<open>jobs\<close>.\<close>

definition jobs_of :: "world \<Rightarrow> pyval list option" where
  "jobs_of w =
     (case content w of
        Parsed (PDict d) \<Rightarrow> (case map_of d ''jobs'' of Some (PList xs) \<Rightarrow> Some xs | _ \<Rightarrow> None)
      | _ \<Rightarrow> None)"

section \<open>The validator chain\<close>

text \<open>
  Modelled from the spec: the validator chain (\<^verbatim>\<open>libs.validator.ValidatorChain\<close>,
  \<^verbatim>\<open>utils.validator_chains.get_job_validator_chain\<close>) and the graph checks behind it
  are not among the sources. This section follows the spec's sections 3 and 4.1 to 4.3.
  A job's \<^verbatim>\<open>job_list\<close> maps a task id to the ordered list of task ids it points to;
  its \<^verbatim>\<open>property\<close> maps a task id to a property bag.
\<close>

type_synonym adjacency = "(string \<times> string list) list"

text \<open>Modelled from the spec: an adjacency list is a sequence of task ids (strings).\<close>

fun strings_of :: "pyval list \<Rightarrow> string list option" where
  "strings_of [] = Some []"
| "strings_of (PStr s # vs) =
     (case strings_of vs of None \<Rightarrow> None | Some ss \<Rightarrow> Some (s # ss))"
| "strings_of (v # vs) = None"

text \<open>Modelled from the spec: \<^verbatim>\<open>job_list\<close>, a mapping from task id to adjacency list.\<close>

fun adjacency_of :: "pydict \<Rightarrow> adjacency option" where
  "adjacency_of [] = Some []"
| "adjacency_of ((task, PList vs) # rest) =
     (case strings_of vs of
        None \<Rightarrow> None
      | Some ds \<Rightarrow>
          (case adjacency_of rest of None \<Rightarrow> None | Some adj \<Rightarrow> Some ((task, ds) # adj)))"
| "adjacency_of (entry # rest) = None"

text \<open>Modelled from the spec: \<^verbatim>\<open>property\<close>, a mapping from task id to property bag.\<close>

fun bags_of :: "pydict \<Rightarrow> (string \<times> pydict) list option" where
  "bags_of [] = Some []"
| "bags_of ((task, PDict bag) # rest) =
     (case bags_of rest of None \<Rightarrow> None | Some bs \<Rightarrow> Some ((task, bag) # bs))"
| "bags_of (entry # rest) = None"

text \<open>Modelled from the spec: the field \<^verbatim>\<open>job_list\<close> of a submitted job.\<close>

definition job_list_of :: "pydict \<Rightarrow> adjacency option" where
  "job_list_of job =
     (case map_of job ''job_list'' of Some (PDict d) \<Rightarrow> adjacency_of d | _ \<Rightarrow> None)"

text \<open>Modelled from the spec: the field \<^verbatim>\<open>property\<close> of a submitted job.\<close>

definition property_of :: "pydict \<Rightarrow> (string \<times> pydict) list option" where
  "property_of job =
     (case map_of job ''property'' of Some (PDict d) \<Rightarrow> bags_of d | _ \<Rightarrow> None)"

subsection \<open>GraphAnalyzer\<close>

text \<open>Modelled from the spec: the task ids of the graph, sources and destinations.\<close>

definition graph_nodes :: "adjacency \<Rightarrow> string list" where
  "graph_nodes adj = remdups (map fst adj @ concat (map snd adj))"

text \<open>
  Modelled from the spec: the undirected version of the graph; the neighbours of a
  node are the nodes it points to and the nodes that point to it.
\<close>

definition neighbours :: "adjacency \<Rightarrow> string \<Rightarrow> string list" where
  "neighbours adj n =
     concat (map snd (filter (\<lambda>e. fst e = n) adj)) @ map fst (filter (\<lambda>e. n \<in> set (snd e)) adj)"

text \<open>
  Modelled from the spec: traversal from a start node; each round adds the neighbours
  of everything visited so far, and as many rounds as there are nodes reach everything
  reachable.
\<close>

fun traverse :: "nat \<Rightarrow> adjacency \<Rightarrow> string list \<Rightarrow> string list" where
  "traverse 0 adj visited = visited"
| "traverse (Suc k) adj visited =
     traverse k adj (remdups (visited @ concat (map (neighbours adj) visited)))"

text \<open>
  Modelled from the spec: \<^verbatim>\<open>is_single_component\<close> compares the visited count of a
  traversal from an arbitrary start node with the total node count; the empty graph
  is a single component.
\<close>

definition is_single_component :: "adjacency \<Rightarrow> bool" where
  "is_single_component adj =
     (case graph_nodes adj of
        [] \<Rightarrow> True
      | start # others \<Rightarrow>
          length (traverse (length (graph_nodes adj)) adj [start]) = length (graph_nodes adj))"

text \<open>
  Modelled from the spec: \<^verbatim>\<open>has_cycle\<close> as the failure of an iterative topological
  sort. A round removes every node with no edge into the remaining nodes; what is left
  after as many rounds as there are nodes lies on or leads into a directed cycle. A
  self-loop is never removed.
\<close>

fun strip_sinks :: "nat \<Rightarrow> adjacency \<Rightarrow> adjacency" where
  "strip_sinks 0 adj = adj"
| "strip_sinks (Suc k) adj =
     strip_sinks k (filter (\<lambda>e. list_ex (\<lambda>d. d \<in> set (map fst adj)) (snd e)) adj)"

text \<open>Modelled from the spec: \<^verbatim>\<open>has_cycle\<close>, true when the sort leaves nodes over.\<close>

definition has_cycle :: "adjacency \<Rightarrow> bool" where
  "has_cycle adj = (strip_sinks (length adj) adj \<noteq> [])"

text \<open>
  Modelled from the spec: \<^verbatim>\<open>has_duplicate_edge\<close> holds when some source node lists the
  same destination twice.
\<close>

definition has_duplicate_edge :: "adjacency \<Rightarrow> bool" where
  "has_duplicate_edge adj = list_ex (\<lambda>e. \<not> distinct (snd e)) adj"

subsection \<open>TaskSchemaValidator\<close>

text \<open>
  Modelled from the spec: the fixed table
  \<^verbatim>\<open>{read: filename, write: filename, drop: column_name}\<close>.
\<close>

definition required_field :: "string \<Rightarrow> string option" where
  "required_field task_name =
     map_of [(''read'', ''filename''), (''write'', ''filename''), (''drop'', ''column_name'')]
       task_name"

text \<open>
  Modelled from the spec: \<^verbatim>\<open>validate(task_name, property_bag)\<close> fails when the
  required field is absent, whatever other fields there are, and when the task kind
  is not a recognized one.
\<close>

definition validate :: "string \<Rightarrow> pydict \<Rightarrow> bool \<times> string option" where
  "validate task_name bag =
     (case required_field task_name of
        None \<Rightarrow> (False, Some ''unrecognized task kind'')
      | Some field \<Rightarrow>
          if field \<in> set (map fst bag) then (True, None)
          else (False, Some ''required field is absent''))"

text \<open>Modelled from the spec: a task's kind is the \<^verbatim>\<open>task_name\<close> of its property bag.\<close>

definition validate_task :: "pydict \<Rightarrow> bool \<times> string option" where
  "validate_task bag =
     (case map_of bag ''task_name'' of
        Some (PStr task_name) \<Rightarrow> validate task_name bag
      | _ \<Rightarrow> (False, Some ''unrecognized task kind''))"

text \<open>Modelled from the spec: the schema check iterates over every task.\<close>

fun validate_tasks :: "(string \<times> pydict) list \<Rightarrow> bool \<times> string option" where
  "validate_tasks [] = (True, None)"
| "validate_tasks ((task, bag) # rest) =
     (case validate_task bag of
        (True, reason) \<Rightarrow> validate_tasks rest
      | (False, reason) \<Rightarrow> (False, reason))"

subsection \<open>ValidatorChain\<close>

text \<open>Modelled from the spec: a member's failure carries its reason.\<close>

definition reject :: "string \<Rightarrow> bool \<times> py_exception option" where
  "reject reason = (False, Some (ValidationError reason))"

text \<open>Modelled from the spec: member (a), key-set equality of \<^verbatim>\<open>job_list\<close> and \<^verbatim>\<open>property\<close>.\<close>

definition key_sets_match :: validator_chain where
  "key_sets_match job =
     (case (job_list_of job, property_of job) of
        (Some adj, Some bags) \<Rightarrow>
          if set (map fst adj) = set (map fst bags) then (True, None)
          else reject ''job_list and property have different tasks''
      | _ \<Rightarrow> reject ''malformed job'')"

text \<open>Modelled from the spec: member (b), a single connected component.\<close>

definition single_component :: validator_chain where
  "single_component job =
     (case job_list_of job of
        Some adj \<Rightarrow> if is_single_component adj then (True, None)
                    else reject ''more than one graph''
      | None \<Rightarrow> reject ''malformed job'')"

text \<open>Modelled from the spec: member (c), acyclicity.\<close>

definition acyclic_graph :: validator_chain where
  "acyclic_graph job =
     (case job_list_of job of
        Some adj \<Rightarrow> if has_cycle adj then reject ''the graph has a cycle'' else (True, None)
      | None \<Rightarrow> reject ''malformed job'')"

text \<open>Modelled from the spec: member (d), no duplicate edge.\<close>

definition no_duplicate_edge :: validator_chain where
  "no_duplicate_edge job =
     (case job_list_of job of
        Some adj \<Rightarrow> if has_duplicate_edge adj then reject ''an edge is repeated'' else (True, None)
      | None \<Rightarrow> reject ''malformed job'')"

text \<open>Modelled from the spec: member (e), per-task property correctness.\<close>

definition property_correct :: validator_chain where
  "property_correct job =
     (case property_of job of
        Some bags \<Rightarrow>
          (case validate_tasks bags of
             (True, reason) \<Rightarrow> (True, None)
           | (False, None) \<Rightarrow> reject ''task schema''
           | (False, Some reason) \<Rightarrow> reject reason)
      | None \<Rightarrow> reject ''malformed job'')"

text \<open>
  Modelled from the spec: the chain evaluates its members in order and stops at the
  first failure, returning that failure's reason; if all members pass, it returns
  success.
\<close>

fun ValidatorChain :: "validator_chain list \<Rightarrow> validator_chain" where
  "ValidatorChain [] job = (True, None)"
| "ValidatorChain (member # members) job =
     (case member job of
        (True, err) \<Rightarrow> ValidatorChain members job
      | (False, err) \<Rightarrow> (False, err))"

text \<open>Modelled from the spec: the recommended member order (a) to (e).\<close>

definition get_job_validator_chain :: validator_chain where
  "get_job_validator_chain =
     ValidatorChain [key_sets_match, single_component, acyclic_graph, no_duplicate_edge,
       property_correct]"

subsection \<open>Jobs of the test suite\<close>


text \<open>The job of \<^verbatim>\<open>test_no_cycle_in_graph\<close> (lines 54-68), with the cycle D, W1, R2.\<close>

definition test_cycle_job :: pydict where
  "test_cycle_job =
     [(''job_name'', PStr ''Job1''),
      (''job_list'', PDict
         [(''R1'', PList [PStr ''D'']),
          (''R2'', PList [PStr ''D'']),
          (''W1'', PList [PStr ''R2'']),
          (''D'', PList [PStr ''W1''])]),
      (''property'', PDict
         [(''R1'', PDict [(''task_name'', PStr ''read''), (''filename'', PStr ''init.csv'')]),
          (''R2'', PDict [(''task_name'', PStr ''read''), (''fielname'', PStr ''a.csv'')]),
          (''W1'', PDict [(''task_name'', PStr ''write''), (''filename'', PStr ''b.csv'')]),
          (''D'', PDict [(''task_name'', PStr ''drop''), (''column_name'', PStr ''column1'')])])]"

section \<open>Notions the properties are stated with\<close>

text \<open>
  A job passes validation when \<^verbatim>\<open>save\<close> takes the branch that calls \<^verbatim>\<open>__save()\<close>:
  \<^verbatim>\<open>is_valid\<close> holds and \<^verbatim>\<open>err\<close> is false.
\<close>

definition passes :: "engine \<Rightarrow> pydict \<Rightarrow> bool" where
  "passes self job = (fst (validator self job) \<and> \<not> truthy (snd (validator self job)))"

text \<open>What \<^verbatim>\<open>job['job_id']\<close> gives for each job of the collection, in order.\<close>

definition job_ids :: "world \<Rightarrow> (py_exception + pyval) list" where
  "job_ids w =
     (case jobs_of w of None \<Rightarrow> [] | Some xs \<Rightarrow> map (\<lambda>j. py_getitem j ''job_id'') xs)"

text \<open>A record of the collection is well formed when its \<^verbatim>\<open>job_id\<close> is an integer.\<close>

definition carries_id :: "pyval \<Rightarrow> bool" where
  "carries_id j = (case py_getitem j ''job_id'' of Inr (PInt i) \<Rightarrow> True | _ \<Rightarrow> False)"

section \<open>Properties\<close>

subsection \<open>Dictionaries and identifiers\<close>

lemma map_of_dict_set_same: "map_of (dict_set d k v) k = Some v"
  by (induction d k v rule: dict_set.induct) auto

lemma dict_set_twice: "dict_set (dict_set d k v) k v' = dict_set d k v'"
  by (induction d k v rule: dict_set.induct) auto

lemma dict_set_present: "map_of d k = Some v \<Longrightarrow> dict_set d k v = d"
  by (induction d k v rule: dict_set.induct) (auto split: if_splits)

lemma new_job_id_of_empty:
  "map_of d ''jobs'' = Some (PList []) \<Longrightarrow> new_job_id_of (PDict d) = Inr 1"
  by (simp add: new_job_id_of_def)

lemma new_job_id_of_last:
  "map_of d ''jobs'' = Some (PList xs) \<Longrightarrow> xs \<noteq> [] \<Longrightarrow>
   py_getitem (last xs) ''job_id'' = Inr (PInt n) \<Longrightarrow> new_job_id_of (PDict d) = Inr (n + 1)"
  by (simp add: new_job_id_of_def)

lemma save_accepts:
  assumes "passes self job"
    and "content w = Parsed (PDict d)" and "map_of d ''jobs'' = Some (PList xs)"
    and "writable w" and "new_job_id_of (PDict d) = Inr i"
  shows "save self job w =
    ((Returns (Some i, True, None), dict_set job ''job_id'' (PInt i)),
     w\<lparr>content := Parsed (PDict (dict_set d ''jobs''
          (PList (xs @ [PDict (dict_set job ''job_id'' (PInt i))])))),
       trace := trace w @ [Acquire (mutex self), FileRead, FileWrite, Release (mutex self)]\<rparr>)"
proof (cases "validator self job")
  case (Pair is_valid err)
  with assms(1) have v: "is_valid" "\<not> truthy err" by (simp_all add: passes_def)
  have body: "save_body job (emit (Acquire (mutex self)) w) =
     ((Returns i, dict_set job ''job_id'' (PInt i)),
      emit FileWrite ((emit FileRead (emit (Acquire (mutex self)) w))
        \<lparr>content := Parsed (PDict (dict_set d ''jobs''
          (PList (xs @ [PDict (dict_set job ''job_id'' (PInt i))]))))\<rparr>))"
    using assms(2-5)
    by (simp add: save_body_def JobDatabaseRead_def JobDatabaseWrite_def emit_def append_job_def Let_def)
  show ?thesis
    using Pair v body
    by (simp add: save_def lock_while_using_file_def emit_def)
qed

lemma save_each_ids:
  assumes "list_all (passes self) jobs"
    and "content w = Parsed (PDict d)" and "map_of d ''jobs'' = Some (PList xs)"
    and "writable w"
    and "if xs = [] then n = 0 else py_getitem (last xs) ''job_id'' = Inr (PInt n)"
  shows "fst (save_each self jobs w) =
           map (\<lambda>i. Returns (Some i, True, None)) [n + 1 .. n + int (length jobs)]
       \<and> content (snd (save_each self jobs w)) =
           Parsed (PDict (dict_set d ''jobs'' (PList (xs @
             map2 (\<lambda>job i. PDict (dict_set job ''job_id'' (PInt i)))
               jobs [n + 1 .. n + int (length jobs)]))))
       \<and> writable (snd (save_each self jobs w))"
  using assms
proof (induction jobs arbitrary: w d xs n)
  case Nil
  then show ?case by (simp add: dict_set_present)
next
  case (Cons job jobs)
  let ?job' = "dict_set job ''job_id'' (PInt (n + 1))"
  let ?d' = "dict_set d ''jobs'' (PList (xs @ [PDict ?job']))"
  let ?w' = "w\<lparr>content := Parsed (PDict ?d'),
       trace := trace w @ [Acquire (mutex self), FileRead, FileWrite, Release (mutex self)]\<rparr>"
  from Cons.prems have nid: "new_job_id_of (PDict d) = Inr (n + 1)"
    by (cases "xs = []") (simp_all add: new_job_id_of_empty new_job_id_of_last)
  from Cons.prems have p: "passes self job" and ps: "list_all (passes self) jobs" by simp_all
  have step: "save self job w = ((Returns (Some (n + 1), True, None), ?job'), ?w')"
    using save_accepts [OF p Cons.prems(2) Cons.prems(3) Cons.prems(4) nid] .
  define ids where "ids = [(n + 1) + 1 .. (n + 1) + int (length jobs)]"
  have ih: "fst (save_each self jobs ?w') = map (\<lambda>i. Returns (Some i, True, None)) ids
       \<and> content (snd (save_each self jobs ?w')) =
           Parsed (PDict (dict_set ?d' ''jobs'' (PList ((xs @ [PDict ?job']) @
             map2 (\<lambda>job i. PDict (dict_set job ''job_id'' (PInt i))) jobs ids))))
       \<and> writable (snd (save_each self jobs ?w'))"
    unfolding ids_def
    apply (rule Cons.IH [OF ps])
    using Cons.prems(4) by (simp_all add: map_of_dict_set_same)
  have up: "[n + 1 .. n + int (length (job # jobs))] = (n + 1) # ids"
  proof -
    have e: "n + int (length (job # jobs)) = (n + 1) + int (length jobs)" by simp
    show ?thesis unfolding e ids_def by (rule upto_rec1) simp
  qed
  show ?case
    unfolding up using step ih
    by (cases "save_each self jobs ?w'") (simp add: dict_set_twice)
qed

lemma jobs_of_SomeD:
  "jobs_of w = Some xs \<Longrightarrow> \<exists>d. content w = Parsed (PDict d) \<and> map_of d ''jobs'' = Some (PList xs)"
  by (auto simp: jobs_of_def split: option.splits document.splits pyval.splits)

lemma stamped_ids:
  "length is = length jobs \<Longrightarrow>
   map (\<lambda>j. py_getitem j ''job_id'')
     (map2 (\<lambda>job i. PDict (dict_set job ''job_id'' (PInt i))) jobs is) = map (\<lambda>i. Inr (PInt i)) is"
  by (induction jobs "is" rule: list_induct2') (simp_all add: map_of_dict_set_same)

lemma length_upto_from: "length [n + 1 .. n + int k] = k"
  by simp

lemma Max_upto_from_one: "0 < k \<Longrightarrow> Max {1 .. int k} = int k"
  by (simp add: Max_eq_iff)

lemma last_upto_from: "0 < k \<Longrightarrow> last [n + 1 .. n + int k] = n + int k"
  by (cases k) (simp_all add: upto_rec2)

subsection \<open>Identifier assignment\<close>

text \<open>
  C1. Let the persisted collection be \<^verbatim>\<open>xs\<close>, with \<^verbatim>\<open>n\<close> the \<^verbatim>\<open>job_id\<close> of its last
  element, or 0 when it is empty, and let the jobs of a list all pass validation and
  be saved one after the other on a writable document. Then the calls return the
  identifiers \<^verbatim>\<open>n + 1, n + 2, ...\<close> in order (so a single save assigns the last
  element's id plus 1, or 1 on the empty collection); the collection afterwards is
  \<^verbatim>\<open>xs\<close> followed by the jobs, each with its identifier attached; its last element
  holds the identifier assigned last; and starting from the empty collection the
  identifiers in the collection are exactly \<^verbatim>\<open>1, 2, ..., N\<close> in order, the last
  element holding their maximum.
\<close>

theorem save_assigns_consecutive_ids:
  assumes "list_all (passes self) jobs"
    and "jobs_of w = Some xs" and "writable w"
    and "if xs = [] then n = 0 else py_getitem (last xs) ''job_id'' = Inr (PInt n)"
  shows "fst (save_each self jobs w) =
           map (\<lambda>i. Returns (Some i, True, None)) [n + 1 .. n + int (length jobs)]
       \<and> jobs_of (snd (save_each self jobs w)) =
           Some (xs @ map2 (\<lambda>job i. PDict (dict_set job ''job_id'' (PInt i)))
                        jobs [n + 1 .. n + int (length jobs)])
       \<and> (if jobs = [] then True
          else last (job_ids (snd (save_each self jobs w))) = Inr (PInt (n + int (length jobs))))
       \<and> (if xs = []
          then job_ids (snd (save_each self jobs w)) = map (\<lambda>i. Inr (PInt i)) [1 .. int (length jobs)]
             \<and> (if jobs = [] then True
                else last (job_ids (snd (save_each self jobs w))) =
                       Inr (PInt (Max (set [1 .. int (length jobs)]))))
          else True)"
proof -
  from assms(2) obtain d where d: "content w = Parsed (PDict d)" "map_of d ''jobs'' = Some (PList xs)"
    using jobs_of_SomeD by blast
  let ?ids = "[n + 1 .. n + int (length jobs)]"
  let ?new = "map2 (\<lambda>job i. PDict (dict_set job ''job_id'' (PInt i))) jobs ?ids"
  let ?w' = "snd (save_each self jobs w)"
  note run = save_each_ids [OF assms(1) d assms(3) assms(4)]
  have len: "length ?ids = length jobs" by (rule length_upto_from)
  have coll: "jobs_of ?w' = Some (xs @ ?new)"
    using run by (simp add: jobs_of_def map_of_dict_set_same)
  have ids: "job_ids ?w' = map (\<lambda>j. py_getitem j ''job_id'') xs @ map (\<lambda>i. Inr (PInt i)) ?ids"
    using coll stamped_ids [OF len] by (simp add: job_ids_def)
  have lst: "last (job_ids ?w') = Inr (PInt (n + int (length jobs)))" if "jobs \<noteq> []"
  proof -
    from that have "?ids \<noteq> []" using len by auto
    then show ?thesis using that ids by (simp add: last_map last_upto_from)
  qed
  have emp: "job_ids ?w' = map (\<lambda>i. Inr (PInt i)) [1 .. int (length jobs)]" if "xs = []"
    using that ids assms(4) by simp
  have mx: "last (job_ids ?w') = Inr (PInt (Max (set [1 .. int (length jobs)])))"
    if "xs = []" "jobs \<noteq> []"
    using that lst assms(4) by (simp add: Max_upto_from_one)
  have c1: "fst (save_each self jobs w) = map (\<lambda>i. Returns (Some i, True, None)) ?ids"
    using run by simp
  have c3: "if jobs = [] then True
            else last (job_ids ?w') = Inr (PInt (n + int (length jobs)))"
    using lst by simp
  have c4: "if xs = []
            then job_ids ?w' = map (\<lambda>i. Inr (PInt i)) [1 .. int (length jobs)]
               \<and> (if jobs = [] then True
                  else last (job_ids ?w') = Inr (PInt (Max (set [1 .. int (length jobs)]))))
            else True"
  proof (cases "xs = []")
    case True
    show ?thesis
    proof (cases "jobs = []")
      case True
      with \<open>xs = []\<close> emp show ?thesis by simp
    next
      case False
      with \<open>xs = []\<close> emp mx show ?thesis by presburger
    qed
  next
    case False
    then show ?thesis by simp
  qed
  from c1 coll c3 c4 show ?thesis by (intro conjI)
qed

theorem save_assigns_consecutive_ids_witness:
  "fst (save_each \<lparr>mutex = 0, validator = (\<lambda>j. (True, None))\<rparr>
         [[(''job_name'', PStr ''a'')], [(''job_name'', PStr ''b'')]]
         \<lparr>content = Parsed (PDict [(''jobs'', PList [])]), writable = True, trace = []\<rparr>)
     = [Returns (Some 1, True, None), Returns (Some 2, True, None)]
   \<and> job_ids (snd (save_each \<lparr>mutex = 0, validator = (\<lambda>j. (True, None))\<rparr>
         [[(''job_name'', PStr ''a'')], [(''job_name'', PStr ''b'')]]
         \<lparr>content = Parsed (PDict [(''jobs'', PList [])]), writable = True, trace = []\<rparr>))
     = [Inr (PInt 1), Inr (PInt 2)]"
  using save_assigns_consecutive_ids
    [of "\<lparr>mutex = 0, validator = (\<lambda>j. (True, None))\<rparr>"
        "[[(''job_name'', PStr ''a'')], [(''job_name'', PStr ''b'')]]"
        "\<lparr>content = Parsed (PDict [(''jobs'', PList [])]), writable = True, trace = []\<rparr>"
        "[]" 0]
  by (simp add: passes_def jobs_of_def upto_rec1)

subsection \<open>Rejected jobs\<close>

text \<open>
  C2. A job that fails the validator chain gets the failure result
  \<^verbatim>\<open>(None, False, err)\<close> with the chain's own error and no identifier; the job, the
  durable document and the record of lock and file events are exactly as before the
  call, so the document was neither read nor written.
\<close>

theorem save_rejected_touches_nothing:
  assumes "fst (validator self job) = False"
  shows "save self job w = ((Returns (None, False, snd (validator self job)), job), w)"
proof (cases "validator self job")
  case (Pair is_valid err)
  with assms have "\<not> is_valid" by simp
  with Pair show ?thesis by (simp add: save_def)
qed

theorem save_rejected_touches_nothing_witness:
  "save \<lparr>mutex = 0, validator = (\<lambda>j. (False, Some (ValidationError ''cycle'')))\<rparr>
        [(''job_name'', PStr ''Job1'')]
        \<lparr>content = Parsed (PDict [(''jobs'', PList [])]), writable = True, trace = []\<rparr>
   = ((Returns (None, False, Some (ValidationError ''cycle'')), [(''job_name'', PStr ''Job1'')]),
      \<lparr>content = Parsed (PDict [(''jobs'', PList [])]), writable = True, trace = []\<rparr>)"
  using save_rejected_touches_nothing
    [of "\<lparr>mutex = 0, validator = (\<lambda>j. (False, Some (ValidationError ''cycle'')))\<rparr>"
        "[(''job_name'', PStr ''Job1'')]"
        "\<lparr>content = Parsed (PDict [(''jobs'', PList [])]), writable = True, trace = []\<rparr>"]
  by simp


subsection \<open>The caller's job\<close>

lemma save_returned_job:
  assumes "passes self job"
    and "save self job w = ((Returns r, job'), w')"
  shows "\<exists>i. r = (Some i, True, None) \<and> job' = dict_set job ''job_id'' (PInt i)"
proof (cases "validator self job")
  case (Pair is_valid e)
  with assms(1) have v: "is_valid" "\<not> truthy e" by (simp_all add: passes_def)
  obtain x j w1 where body: "save_body job (emit (Acquire (mutex self)) w) = ((x, j), w1)"
    by (metis prod.exhaust)
  from assms(2) Pair v body obtain i where x: "x = Returns i" and r: "r = (Some i, True, None)"
    and j: "job' = j"
    by (cases x) (auto simp: save_def lock_while_using_file_def)
  from body x have "j = dict_set job ''job_id'' (PInt i)"
    by (auto simp: save_body_def Let_def split: prod.splits outcome.splits sum.splits)
  with r j show ?thesis by simp
qed

text \<open>
  C9. \<^verbatim>\<open>save\<close> changes the caller's own job dictionary. For a job that passes
  validation, on a writable document whose collection is \<^verbatim>\<open>xs\<close> with \<^verbatim>\<open>n\<close> the
  \<^verbatim>\<open>job_id\<close> of its last element (0 when empty), \<^verbatim>\<open>save\<close> returns
  \<^verbatim>\<open>(n + 1, True, None)\<close>, the dictionary the caller holds afterwards is the job given
  with \<^verbatim>\<open>job_id\<close> set to \<^verbatim>\<open>n + 1\<close>, and that same stamped job is the record appended
  to the collection. And on any document at all, whenever \<^verbatim>\<open>save\<close> returns for such a
  job, it returns \<^verbatim>\<open>(i, True, None)\<close> and the caller's dictionary is the job given with
  \<^verbatim>\<open>job_id\<close> set to that \<^verbatim>\<open>i\<close>.
\<close>

theorem save_stamps_callers_job:
  assumes "passes self job"
  shows "(jobs_of w = Some xs \<and> writable w
            \<and> (if xs = [] then n = 0 else py_getitem (last xs) ''job_id'' = Inr (PInt n))
          \<longrightarrow> fst (save self job w) =
                (Returns (Some (n + 1), True, None), dict_set job ''job_id'' (PInt (n + 1)))
              \<and> map_of (snd (fst (save self job w))) ''job_id'' = Some (PInt (n + 1))
              \<and> jobs_of (snd (save self job w)) =
                  Some (xs @ [PDict (dict_set job ''job_id'' (PInt (n + 1)))]))
       \<and> (\<forall>r job' w'. save self job w = ((Returns r, job'), w')
          \<longrightarrow> (\<exists>i. r = (Some i, True, None)
                   \<and> job' = dict_set job ''job_id'' (PInt i)
                   \<and> map_of job' ''job_id'' = Some (PInt i)))"
proof (intro conjI impI allI)
  assume st: "jobs_of w = Some xs \<and> writable w
            \<and> (if xs = [] then n = 0 else py_getitem (last xs) ''job_id'' = Inr (PInt n))"
  then obtain d where d: "content w = Parsed (PDict d)" "map_of d ''jobs'' = Some (PList xs)"
    using jobs_of_SomeD by blast
  from st d have nid: "new_job_id_of (PDict d) = Inr (n + 1)"
    by (cases "xs = []") (simp_all add: new_job_id_of_empty new_job_id_of_last)
  from st have wr: "writable w" by simp
  note step = save_accepts [OF assms d wr nid]
  show "fst (save self job w) =
                (Returns (Some (n + 1), True, None), dict_set job ''job_id'' (PInt (n + 1)))"
    using step by simp
  show "map_of (snd (fst (save self job w))) ''job_id'' = Some (PInt (n + 1))"
    using step by (simp add: map_of_dict_set_same)
  show "jobs_of (snd (save self job w)) =
                  Some (xs @ [PDict (dict_set job ''job_id'' (PInt (n + 1)))])"
    using step by (simp add: jobs_of_def map_of_dict_set_same)
next
  fix r job' w'
  assume "save self job w = ((Returns r, job'), w')"
  from save_returned_job [OF assms this]
  show "\<exists>i. r = (Some i, True, None)
                   \<and> job' = dict_set job ''job_id'' (PInt i)
                   \<and> map_of job' ''job_id'' = Some (PInt i)"
    by (auto simp: map_of_dict_set_same)
qed

theorem save_stamps_callers_job_witness:
  "fst (save \<lparr>mutex = 0, validator = (\<lambda>j. (True, None))\<rparr> [(''job_name'', PStr ''a'')]
         \<lparr>content = Parsed (PDict [(''jobs'', PList [])]), writable = True, trace = []\<rparr>)
     = (Returns (Some 1, True, None), [(''job_name'', PStr ''a''), (''job_id'', PInt 1)])
   \<and> map_of (snd (fst (save \<lparr>mutex = 0, validator = (\<lambda>j. (True, None))\<rparr>
         [(''job_name'', PStr ''a'')]
         \<lparr>content = Parsed (PDict [(''jobs'', PList [])]), writable = True, trace = []\<rparr>)))
       ''job_id'' = Some (PInt 1)
   \<and> jobs_of (snd (save \<lparr>mutex = 0, validator = (\<lambda>j. (True, None))\<rparr>
         [(''job_name'', PStr ''a'')]
         \<lparr>content = Parsed (PDict [(''jobs'', PList [])]), writable = True, trace = []\<rparr>))
     = Some [PDict [(''job_name'', PStr ''a''), (''job_id'', PInt 1)]]"
proof -
  have p: "passes \<lparr>mutex = 0, validator = (\<lambda>j. (True, None))\<rparr> [(''job_name'', PStr ''a'')]"
    by (simp add: passes_def)
  have st: "jobs_of \<lparr>content = Parsed (PDict [(''jobs'', PList [])]), writable = True, trace = []\<rparr>
              = Some []"
    by (simp add: jobs_of_def)
  from save_stamps_callers_job [OF p,
      of "\<lparr>content = Parsed (PDict [(''jobs'', PList [])]), writable = True, trace = []\<rparr>" "[]" 0]
    st
  show ?thesis by simp
qed


subsection \<open>update and remove\<close>

text \<open>
  C7. \<^verbatim>\<open>update\<close> and \<^verbatim>\<open>remove\<close> return \<^verbatim>\<open>None\<close> for every job id and patch; they
  take and release the lock and nothing else happens, so the persisted collection is
  the same before and after either call.
\<close>

theorem update_and_remove_do_nothing:
  "update self job_id updated_data w =
     (Returns (), w\<lparr>trace := trace w @ [Acquire (mutex self), Release (mutex self)]\<rparr>)
   \<and> remove self job_id w =
     (Returns (), w\<lparr>trace := trace w @ [Acquire (mutex self), Release (mutex self)]\<rparr>)
   \<and> content (snd (update self job_id updated_data w)) = content w
   \<and> content (snd (remove self job_id w)) = content w"
  by (simp add: update_def remove_def lock_while_using_file_def emit_def)

subsection \<open>Storage errors\<close>

text \<open>
  C3. A storage failure inside the critical section is turned into a returned error
  by \<^verbatim>\<open>get_item\<close> only. With an unreadable document and a job that passes validation,
  \<^verbatim>\<open>save\<close> ends in the exception itself, while \<^verbatim>\<open>get_item\<close> on the same document
  returns \<^verbatim>\<open>(None, False, e)\<close>; \<^verbatim>\<open>reset\<close> on a document that cannot be written ends in
  the exception too.
\<close>

theorem save_propagates_storage_error:
  "save \<lparr>mutex = 0, validator = (\<lambda>j. (True, None))\<rparr> [(''job_name'', PStr ''Job1'')]
        \<lparr>content = Unreadable, writable = True, trace = []\<rparr>
     = ((Raises OSError, [(''job_name'', PStr ''Job1'')]),
        \<lparr>content = Unreadable, writable = True, trace = [Acquire 0, FileRead, Release 0]\<rparr>)
   \<and> get_item \<lparr>mutex = 0, validator = (\<lambda>j. (True, None))\<rparr> 1
        \<lparr>content = Unreadable, writable = True, trace = []\<rparr>
     = (Returns (None, False, Some OSError),
        \<lparr>content = Unreadable, writable = True, trace = [Acquire 0, FileRead, Release 0]\<rparr>)
   \<and> reset \<lparr>mutex = 0, validator = (\<lambda>j. (True, None))\<rparr>
        \<lparr>content = Unreadable, writable = False, trace = []\<rparr>
     = (Raises OSError, \<lparr>content = Unreadable, writable = False, trace = [FileWrite]\<rparr>)"
  by (simp add: save_def get_item_def reset_def lock_while_using_file_def save_body_def
      get_item_body_def JobDatabaseRead_def JobDatabaseWrite_def emit_def)

text \<open>
  C10. \<^verbatim>\<open>save\<close> does not return a tuple on every call: with a job that passes
  validation and a document that can be read but not written, the call ends in the
  exception of the write, after the caller's job has received its \<^verbatim>\<open>job_id\<close>.
\<close>

theorem save_write_failure_returns_no_tuple:
  "save \<lparr>mutex = 0, validator = (\<lambda>j. (True, None))\<rparr> [(''job_name'', PStr ''Job1'')]
        \<lparr>content = Parsed (PDict [(''jobs'', PList [])]), writable = False, trace = []\<rparr>
     = ((Raises OSError, [(''job_name'', PStr ''Job1''), (''job_id'', PInt 1)]),
        \<lparr>content = Parsed (PDict [(''jobs'', PList [])]), writable = False,
          trace = [Acquire 0, FileRead, FileWrite, Release 0]\<rparr>)"
  by (simp add: save_def lock_while_using_file_def save_body_def JobDatabaseRead_def
      JobDatabaseWrite_def new_job_id_of_def append_job_def emit_def Let_def)

subsection \<open>Lock discipline\<close>

text \<open>
  C4. \<^verbatim>\<open>reset\<close> opens the document for writing without taking the lock: its only
  event is the write, so the access is not guarded by the engine's mutex. The other
  operations keep every access between acquiring and releasing the mutex (lemmas
  \<^verbatim>\<open>save_trace_guarded\<close> and \<^verbatim>\<open>get_item_trace_guarded\<close> below).
\<close>

theorem reset_writes_without_the_lock:
  "trace (snd (reset self \<lparr>content = c, writable = b, trace = []\<rparr>)) = [FileWrite]
   \<and> \<not> guarded (mutex self) False (trace (snd (reset self \<lparr>content = c, writable = b, trace = []\<rparr>)))"
  by (simp add: reset_def JobDatabaseWrite_def emit_def)

subsection \<open>The singleton\<close>

text \<open>
  C5. Two constructions give the same instance, but the second one runs \<^verbatim>\<open>__init__\<close>
  on it again and binds \<^verbatim>\<open>mutex\<close> to a new lock: the instance's mutex after the second
  construction differs from the one after the first.
\<close>

theorem second_construction_replaces_mutex:
  "(case JobDatabaseEngine chain rt of
      (a, rt1) \<Rightarrow>
        (case JobDatabaseEngine chain rt1 of
           (b, rt2) \<Rightarrow>
             b = a \<and> mutex_at rt1 a = Some (locks_made rt)
                   \<and> mutex_at rt2 a = Some (Suc (locks_made rt))
                   \<and> mutex_at rt2 a \<noteq> mutex_at rt1 a))"
  by (simp add: JobDatabaseEngine_def engine_new_def engine_init_def mutex_at_def Let_def
      split: option.splits document.splits prod.splits)

subsection \<open>get_item\<close>

lemma carries_idD: "carries_id j \<Longrightarrow> \<exists>m. py_getitem j ''job_id'' = Inr (PInt m)"
  by (auto simp: carries_id_def split: sum.splits pyval.splits)

lemma search_from_absent:
  "list_all carries_id xs \<Longrightarrow>
   find (\<lambda>j. py_getitem j ''job_id'' = Inr (PInt job_id)) xs = None \<Longrightarrow>
   search_from i xs job_id = Inr (False, - 1)"
proof (induction xs arbitrary: i)
  case Nil
  show ?case by simp
next
  case (Cons x xs)
  from Cons.prems(1) obtain m where m: "py_getitem x ''job_id'' = Inr (PInt m)"
    using carries_idD by auto
  from Cons.prems(2) m have "m \<noteq> job_id" by (auto split: if_splits)
  moreover from Cons.prems have "search_from (Suc i) xs job_id = Inr (False, - 1)"
    by (intro Cons.IH) (auto split: if_splits)
  ultimately show ?case using m by simp
qed

lemma search_from_present:
  "list_all carries_id xs \<Longrightarrow>
   find (\<lambda>j. py_getitem j ''job_id'' = Inr (PInt job_id)) xs = Some j \<Longrightarrow>
   \<exists>k. k < length xs \<and> xs ! k = j \<and> search_from i xs job_id = Inr (True, int (i + k))"
proof (induction xs arbitrary: i)
  case Nil
  then show ?case by simp
next
  case (Cons x xs)
  from Cons.prems(1) obtain m where m: "py_getitem x ''job_id'' = Inr (PInt m)"
    using carries_idD by auto
  show ?case
  proof (cases "m = job_id")
    case True
    with Cons.prems(2) m have "x = j" by simp
    with True m show ?thesis by (intro exI [of _ 0]) simp
  next
    case False
    with Cons.prems m have "find (\<lambda>j. py_getitem j ''job_id'' = Inr (PInt job_id)) xs = Some j"
      and "list_all carries_id xs" by simp_all
    from Cons.IH [OF this(2) this(1), of "Suc i"]
    obtain k where "k < length xs" "xs ! k = j"
      "search_from (Suc i) xs job_id = Inr (True, int (Suc i + k))" by blast
    with False m show ?thesis by (intro exI [of _ "Suc k"]) simp
  qed
qed

lemma get_item_body_read:
  assumes "jobs_of w = Some xs"
  shows "get_item_body job_id w =
     (case search_from 0 xs job_id of
        Inl e \<Rightarrow> (Raises e, emit FileRead w)
      | Inr (is_exists, idx) \<Rightarrow>
          if \<not> is_exists then (Returns (False, None), emit FileRead w)
          else (case py_index (PList xs) idx of
                  Inl e \<Rightarrow> (Raises e, emit FileRead w)
                | Inr v \<Rightarrow> (Returns (True, Some v), emit FileRead w)))"
  using assms
  by (auto simp: jobs_of_def get_item_body_def JobDatabaseRead_def
      split: option.splits document.splits pyval.splits)

text \<open>
  C6. On a collection whose records all carry an integer \<^verbatim>\<open>job_id\<close>, \<^verbatim>\<open>get_item\<close>
  returns \<^verbatim>\<open>(job, True, None)\<close> with the first record whose id is the requested one
  when there is such a record, and \<^verbatim>\<open>(None, False, ValueError(...))\<close> with the message
  \<^verbatim>\<open>Failed to find id: \<close> followed by the requested id when no record has that id
  (\<^verbatim>\<open>find\<close> gives \<^verbatim>\<open>None\<close> exactly then).
\<close>

theorem get_item_finds_exactly_present_ids:
  assumes "jobs_of w = Some xs" and "list_all carries_id xs"
  shows "fst (get_item self job_id w) =
     (case find (\<lambda>j. py_getitem j ''job_id'' = Inr (PInt job_id)) xs of
        Some j \<Rightarrow> Returns (Some j, True, None)
      | None \<Rightarrow> Returns (None, False, Some (ValueError (''Failed to find id: '' @ py_str job_id))))"
proof (cases "find (\<lambda>j. py_getitem j ''job_id'' = Inr (PInt job_id)) xs")
  case None
  from search_from_absent [OF assms(2) None, of 0]
  have s: "search_from 0 xs job_id = Inr (False, - 1)" .
  have j: "jobs_of (emit (Acquire (mutex self)) w) = Some xs"
    using assms(1) by (simp add: jobs_of_def emit_def)
  show ?thesis
    using None s by (simp add: get_item_def lock_while_using_file_def get_item_body_read [OF j])
next
  case (Some j)
  from search_from_present [OF assms(2) Some, of 0]
  obtain k where k: "k < length xs" "xs ! k = j" "search_from 0 xs job_id = Inr (True, int k)"
    by auto
  have j: "jobs_of (emit (Acquire (mutex self)) w) = Some xs"
    using assms(1) by (simp add: jobs_of_def emit_def)
  show ?thesis
    using Some k by (simp add: get_item_def lock_while_using_file_def get_item_body_read [OF j])
qed

theorem get_item_finds_exactly_present_ids_witness:
  "fst (get_item \<lparr>mutex = 0, validator = (\<lambda>j. (True, None))\<rparr> 2
         \<lparr>content = Parsed (PDict [(''jobs'', PList
             [PDict [(''job_name'', PStr ''a''), (''job_id'', PInt 1)],
              PDict [(''job_name'', PStr ''b''), (''job_id'', PInt 2)]])]),
           writable = True, trace = []\<rparr>)
     = Returns (Some (PDict [(''job_name'', PStr ''b''), (''job_id'', PInt 2)]), True, None)
   \<and> fst (get_item \<lparr>mutex = 0, validator = (\<lambda>j. (True, None))\<rparr> 5
         \<lparr>content = Parsed (PDict [(''jobs'', PList
             [PDict [(''job_name'', PStr ''a''), (''job_id'', PInt 1)],
              PDict [(''job_name'', PStr ''b''), (''job_id'', PInt 2)]])]),
           writable = True, trace = []\<rparr>)
     = Returns (None, False, Some (ValueError ''Failed to find id: 5''))"
  using get_item_finds_exactly_present_ids
    [of "\<lparr>content = Parsed (PDict [(''jobs'', PList
             [PDict [(''job_name'', PStr ''a''), (''job_id'', PInt 1)],
              PDict [(''job_name'', PStr ''b''), (''job_id'', PInt 2)]])]),
           writable = True, trace = []\<rparr>"
        "[PDict [(''job_name'', PStr ''a''), (''job_id'', PInt 1)],
              PDict [(''job_name'', PStr ''b''), (''job_id'', PInt 2)]]"
        "\<lparr>mutex = 0, validator = (\<lambda>j. (True, None))\<rparr>" 2]
    get_item_finds_exactly_present_ids
    [of "\<lparr>content = Parsed (PDict [(''jobs'', PList
             [PDict [(''job_name'', PStr ''a''), (''job_id'', PInt 1)],
              PDict [(''job_name'', PStr ''b''), (''job_id'', PInt 2)]])]),
           writable = True, trace = []\<rparr>"
        "[PDict [(''job_name'', PStr ''a''), (''job_id'', PInt 1)],
              PDict [(''job_name'', PStr ''b''), (''job_id'', PInt 2)]]"
        "\<lparr>mutex = 0, validator = (\<lambda>j. (True, None))\<rparr>" 5]
  by (simp add: jobs_of_def carries_id_def py_str_def digits_of.simps digit_char_def)


subsection \<open>Acceptance of the test suite's valid job\<close>


lemma chain_rejects_test_cycle_job:
  "get_job_validator_chain test_cycle_job = (False, Some (ValidationError ''the graph has a cycle''))"
  by code_simp


subsection \<open>The lock in the other operations, and the results of save\<close>

lemma save_body_trace:
  "trace (snd (save_body job w)) = trace w @ [FileRead] \<or>
   trace (snd (save_body job w)) = trace w @ [FileRead, FileWrite]"
  by (auto simp: save_body_def JobDatabaseRead_def JobDatabaseWrite_def emit_def Let_def
      split: option.splits document.splits sum.splits)

lemma save_trace_guarded:
  "\<exists>es. trace (snd (save self job w)) = trace w @ es \<and> guarded (mutex self) False es"
proof (cases "passes self job")
  case False
  then have "save self job w = ((Returns (None, False, snd (validator self job)), job), w)"
    by (cases "validator self job") (auto simp: save_def passes_def)
  then show ?thesis by simp
next
  case True
  obtain r j w1 where body: "save_body job (emit (Acquire (mutex self)) w) = ((r, j), w1)"
    by (metis prod.exhaust)
  from save_body_trace [of job "emit (Acquire (mutex self)) w"] body
  have w1: "trace w1 = trace w @ [Acquire (mutex self), FileRead] \<or>
            trace w1 = trace w @ [Acquire (mutex self), FileRead, FileWrite]"
    by (simp add: emit_def)
  from True body have "trace (snd (save self job w)) = trace w1 @ [Release (mutex self)]"
    by (cases "validator self job"; cases r)
       (auto simp: save_def passes_def lock_while_using_file_def emit_def)
  with w1 show ?thesis by auto
qed

lemma get_item_trace_guarded:
  "\<exists>es. trace (snd (get_item self job_id w)) = trace w @ es \<and> guarded (mutex self) False es"
proof -
  have "trace (snd (get_item self job_id w)) =
          trace w @ [Acquire (mutex self), FileRead, Release (mutex self)]"
    by (auto simp: get_item_def lock_while_using_file_def get_item_body_def JobDatabaseRead_def
        emit_def split: option.splits document.splits sum.splits prod.splits outcome.splits)
  then show ?thesis by simp
qed

lemma get_item_always_returns: "\<exists>r. fst (get_item self job_id w) = Returns r"
  by (auto simp: get_item_def split: prod.splits outcome.splits)

lemma save_returned_shapes:
  assumes "fst (fst (save self job w)) = Returns r"
  shows "(\<exists>n. r = (Some n, True, None)) \<or> r = (None, False, snd (validator self job))"
proof (cases "validator self job")
  case (Pair is_valid err)
  obtain x j w1 where body: "lock_while_using_file (mutex self) (save_body job) w = ((x, j), w1)"
    by (metis prod.exhaust)
  from assms Pair body show ?thesis
    by (cases x) (auto simp: save_def split: if_splits)
qed


end
